theory Spec2Isabelle
  imports Complex_Main "HOL-Library.Sublist" "HOL-Library.Char_ord"
begin

section \<open>Conventions of the embedding\<close>

text \<open>
  The gateway is TypeScript on Node. A JavaScript \<^verbatim>\<open>number\<close> is modelled as a
  \<^typ>\<open>real\<close> (scores, weights, costs) or as an \<^typ>\<open>int\<close> (millisecond clocks
  and counters): the arithmetic of the source is read as exact arithmetic, rounding of
  IEEE doubles is not part of the model. A JavaScript string is a list of code units;
  \<^typ>\<open>char\<close> stands for the code units below 256. An optional property is an
  \<^typ>\<open>'a option\<close>, \<^verbatim>\<open>undefined\<close> and \<^verbatim>\<open>null\<close> are \<^term>\<open>None\<close>.
  Calls that leave the process (database, Telegram, Flutterwave, the chat model) take
  their outcome from an environment record, so that every failure the source handles is
  a branch of the model.
\<close>

section \<open>Qualification scorer (src/unnamed/part_002, calculateQualificationScore)\<close>

datatype intent = Information | Demo | Pricing | Support | Purchase | General

datatype urgency = Low | Medium | High

record SentimentAnalysis =
  score :: real
  intent :: intent
  urgency :: urgency
  sa_keywords :: "string list"

text \<open>\<^verbatim>\<open>table[key] || d\<close>: the default is taken when the table has no such key, and
  also when the entry is the falsy number 0.\<close>

definition or_default :: "real option \<Rightarrow> real \<Rightarrow> real" where
  "or_default v d = (case v of None \<Rightarrow> d | Some x \<Rightarrow> if x = 0 then d else x)"

definition intentScores :: "intent \<rightharpoonup> real" where
  "intentScores =
     [Purchase \<mapsto> 1.0, Demo \<mapsto> 0.9, Pricing \<mapsto> 0.8, Information \<mapsto> 0.6,
      Support \<mapsto> 0.5, General \<mapsto> 0.4]"

definition urgencyScores :: "urgency \<rightharpoonup> real" where
  "urgencyScores = [High \<mapsto> 1.0, Medium \<mapsto> 0.6, Low \<mapsto> 0.3]"

definition calculateQualificationScore :: "SentimentAnalysis list \<Rightarrow> real" where
  "calculateQualificationScore sentimentHistory =
     (if length sentimentHistory = 0 then 0.5
      else
        let n = real (length sentimentHistory);
            avgSentiment = foldl (\<lambda>sum s. sum + score s) 0 sentimentHistory / n;
            avgIntentScore =
              foldl (\<lambda>sum s. sum + or_default (intentScores (intent s)) 0.5) 0
                sentimentHistory / n;
            avgUrgencyScore =
              foldl (\<lambda>sum s. sum + or_default (urgencyScores (urgency s)) 0.5) 0
                sentimentHistory / n;
            qualificationScore =
              avgSentiment * 0.3 + avgIntentScore * 0.5 + avgUrgencyScore * 0.2
        in min (max qualificationScore 0) 1)"

text \<open>The scorer as the specification words it: three means, fixed weights, a clamp.\<close>

fun intent_weight :: "intent \<Rightarrow> real" where
  "intent_weight Purchase = 1.0"
| "intent_weight Demo = 0.9"
| "intent_weight Pricing = 0.8"
| "intent_weight Information = 0.6"
| "intent_weight Support = 0.5"
| "intent_weight General = 0.4"

fun urgency_weight :: "urgency \<Rightarrow> real" where
  "urgency_weight High = 1.0"
| "urgency_weight Medium = 0.6"
| "urgency_weight Low = 0.3"

definition mean :: "real list \<Rightarrow> real" where
  "mean xs = sum_list xs / real (length xs)"

definition clamp01 :: "real \<Rightarrow> real" where
  "clamp01 x = (if x < 0 then 0 else if 1 < x then 1 else x)"

definition spec_score :: "SentimentAnalysis list \<Rightarrow> real" where
  "spec_score h =
     clamp01 (0.3 * mean (map score h) + 0.5 * mean (map (\<lambda>s. intent_weight (intent s)) h)
              + 0.2 * mean (map (\<lambda>s. urgency_weight (urgency s)) h))"

section \<open>Strings (String.prototype.toLowerCase, includes)\<close>

text \<open>\<^verbatim>\<open>toLowerCase\<close> on code units below 256: A-Z and the Latin-1 capitals
  (0xC0 to 0xDE, the multiplication sign 0xD7 apart) move up by 32, every other unit
  stays. \<open>upper_char\<close> is the converse map, used for the \<^verbatim>\<open>i\<close> flag of regular
  expressions.\<close>

definition lower_char :: "char \<Rightarrow> char" where
  "lower_char c =
     (if (CHR ''A'' \<le> c \<and> c \<le> CHR ''Z'') \<or> (CHR 0xC0 \<le> c \<and> c \<le> CHR 0xDE \<and> c \<noteq> CHR 0xD7)
      then char_of (of_char c + (32 :: nat)) else c)"

definition upper_char :: "char \<Rightarrow> char" where
  "upper_char c =
     (if (CHR ''a'' \<le> c \<and> c \<le> CHR ''z'') \<or> (CHR 0xE0 \<le> c \<and> c \<le> CHR 0xFE \<and> c \<noteq> CHR 0xF7)
      then char_of (of_char c - (32 :: nat)) else c)"

definition toLowerCase :: "string \<Rightarrow> string" where
  "toLowerCase s = map lower_char s"

text \<open>\<^verbatim>\<open>s.includes(k)\<close>: \<open>k\<close> occurs in \<open>s\<close> as a contiguous run, searched from
  the left.\<close>

fun includes_js :: "string \<Rightarrow> string \<Rightarrow> bool" where
  "includes_js [] k = (k = [])"
| "includes_js (c # cs) k = (prefix k (c # cs) \<or> includes_js cs k)"

section \<open>Deterministic transcript classifier (src/src/routes/logs.routes.ts, webhook routes)\<close>

definition extractIntent :: "string \<Rightarrow> string" where
  "extractIntent transcript =
     (let lowerTranscript = toLowerCase transcript
      in if includes_js lowerTranscript ''book'' \<or> includes_js lowerTranscript ''reservation''
         then ''booking''
         else if includes_js lowerTranscript ''price'' \<or> includes_js lowerTranscript ''cost''
                 \<or> includes_js lowerTranscript ''how much''
         then ''pricing_inquiry''
         else if includes_js lowerTranscript ''interested'' \<or> includes_js lowerTranscript ''sign up''
         then ''service_interest''
         else if includes_js lowerTranscript ''support'' \<or> includes_js lowerTranscript ''help''
         then ''support''
         else if includes_js lowerTranscript ''cancel'' \<or> includes_js lowerTranscript ''refund''
         then ''cancellation''
         else ''general_inquiry'')"

definition qualifyingKeywords :: "string list" where
  "qualifyingKeywords = [''interested'', ''sign up'', ''buy'', ''purchase'', ''book'', ''yes'']"

definition checkQualification :: "string \<Rightarrow> bool" where
  "checkQualification transcript =
     (let lowerTranscript = toLowerCase transcript
      in list_ex (\<lambda>keyword. includes_js lowerTranscript keyword) qualifyingKeywords)"

definition positiveKeywords :: "string list" where
  "positiveKeywords = [''interested'', ''yes'', ''definitely'', ''sure'', ''absolutely'']"

definition negativeKeywords :: "string list" where
  "negativeKeywords = [''no'', ''not interested'', ''maybe'', ''later'']"

definition calculateConfidence :: "string \<Rightarrow> real" where
  "calculateConfidence transcript =
     (let score0 = 0.5;
          lowerTranscript = toLowerCase transcript;
          score1 = foldl (\<lambda>sc keyword. if includes_js lowerTranscript keyword then sc + 0.1 else sc)
                     score0 positiveKeywords;
          score2 = foldl (\<lambda>sc keyword. if includes_js lowerTranscript keyword then sc - 0.15 else sc)
                     score1 negativeKeywords
      in max 0 (min 1 score2))"





section \<open>Regular expressions, extractName and extractEmail (src/src/routes/logs.routes.ts)\<close>

text \<open>
  The patterns of the source use character classes, literal characters, \<^verbatim>\<open>\s\<close>, greedy
  \<^verbatim>\<open>+\<close> and \<^verbatim>\<open>?\<close>, a non-capturing and a capturing group. A matcher state is the
  input still unread and the text of capture group 1. \<open>matches\<close> lists the states in
  which a pattern can end, in the order in which a backtracking matcher tries them, so
  the head of the list is the match that JavaScript reports. A class is a list of
  inclusive ranges; with the \<^verbatim>\<open>i\<close> flag a code unit is in a class when its lower-case
  or its upper-case form is.
\<close>

type_synonym char_class = "(char \<times> char) list"

definition in_class :: "char_class \<Rightarrow> char \<Rightarrow> bool" where
  "in_class cls c = list_ex (\<lambda>(lo, hi). lo \<le> c \<and> c \<le> hi) cls"

definition class_matches :: "bool \<Rightarrow> char_class \<Rightarrow> char \<Rightarrow> bool" where
  "class_matches ignoreCase cls c =
     (if ignoreCase then in_class cls (lower_char c) \<or> in_class cls (upper_char c)
      else in_class cls c)"

text \<open>\<^verbatim>\<open>\s\<close> and the characters \<^verbatim>\<open>trim\<close> strips, among the code units below 256: tab,
  line feed, vertical tab, form feed, carriage return, space, no-break space.\<close>

definition is_space :: "char \<Rightarrow> bool" where
  "is_space c = (c \<in> set [CHR 0x09, CHR 0x0A, CHR 0x0B, CHR 0x0C, CHR 0x0D, CHR 0x20, CHR 0xA0])"

datatype rx = Class char_class | Space | Eps | Seq rx rx | Plus rx | Opt rx
  | NonCapture rx | Group rx

type_synonym mstate = "string \<times> string option"

text \<open>Greedy \<^verbatim>\<open>r+\<close>: after one round of \<open>r\<close>, further rounds are tried before stopping;
  a round must consume input, which bounds the rounds by the length of the input.\<close>

fun plus_iter :: "(mstate \<Rightarrow> mstate list) \<Rightarrow> nat \<Rightarrow> mstate \<Rightarrow> mstate list" where
  "plus_iter m 0 st = []"
| "plus_iter m (Suc n) st =
     concat (map (\<lambda>st'. if length (fst st') < length (fst st)
                          then plus_iter m n st' @ [st'] else [])
               (m st))"

fun matches :: "bool \<Rightarrow> rx \<Rightarrow> mstate \<Rightarrow> mstate list" where
  "matches ic (Class cls) st =
     (case fst st of [] \<Rightarrow> []
      | c # cs \<Rightarrow> if class_matches ic cls c then [(cs, snd st)] else [])"
| "matches ic Space st =
     (case fst st of [] \<Rightarrow> [] | c # cs \<Rightarrow> if is_space c then [(cs, snd st)] else [])"
| "matches ic Eps st = [st]"
| "matches ic (Seq a b) st = concat (map (matches ic b) (matches ic a st))"
| "matches ic (Plus a) st = plus_iter (matches ic a) (length (fst st)) st"
| "matches ic (Opt a) st = matches ic a st @ [st]"
| "matches ic (NonCapture a) st = matches ic a st"
| "matches ic (Group a) st =
     map (\<lambda>st'. (fst st', Some (take (length (fst st) - length (fst st')) (fst st))))
       (matches ic a st)"

definition lit :: "string \<Rightarrow> rx" where
  "lit s = foldr (\<lambda>c r. Seq (Class [(c, c)]) r) s Eps"

text \<open>\<^verbatim>\<open>s.match(r)\<close> without the \<^verbatim>\<open>g\<close> flag: the leftmost start at which \<open>r\<close>
  matches; the result is the matched text and capture group 1.\<close>

fun rx_match :: "bool \<Rightarrow> rx \<Rightarrow> string \<Rightarrow> (string \<times> string option) option" where
  "rx_match ic r s =
     (case matches ic r (s, None) of
        st # _ \<Rightarrow> Some (take (length s - length (fst st)) s, snd st)
      | [] \<Rightarrow> (case s of [] \<Rightarrow> None | _ # s' \<Rightarrow> rx_match ic r s'))"

definition trim :: "string \<Rightarrow> string" where
  "trim s = rev (dropWhile is_space (rev (dropWhile is_space s)))"

text \<open>\<^verbatim>\<open>([a-z]+(?:\s[a-z]+)?)\<close>, then the three patterns of \<^verbatim>\<open>extractName\<close> (flag
  \<^verbatim>\<open>i\<close>), tried in this order.\<close>

definition name_words :: rx where
  "name_words =
     Seq (Plus (Class [(CHR ''a'', CHR ''z'')]))
         (Opt (NonCapture (Seq Space (Plus (Class [(CHR ''a'', CHR ''z'')])))))"

definition namePatterns :: "rx list" where
  "namePatterns =
     [Seq (lit ''my name is '') (Group name_words),
      Seq (lit ''i'm '') (Group name_words),
      Seq (lit ''this is '') (Group name_words)]"

fun first_name_match :: "rx list \<Rightarrow> string \<Rightarrow> string option" where
  "first_name_match [] transcript = None"
| "first_name_match (pattern # rest) transcript =
     (case rx_match True pattern transcript of
        Some (_, Some m1) \<Rightarrow> if m1 \<noteq> [] then Some (trim m1) else first_name_match rest transcript
      | _ \<Rightarrow> first_name_match rest transcript)"

definition extractName :: "string \<Rightarrow> string option" where
  "extractName transcript = first_name_match namePatterns transcript"

text \<open>\<^verbatim>\<open>/([a-zA-Z0-9._-]+@[a-zA-Z0-9._-]+\.[a-zA-Z0-9_-]+)/\<close>\<close>

definition emailPattern :: rx where
  "emailPattern =
     Group (Seq (Plus (Class [(CHR ''a'', CHR ''z''), (CHR ''A'', CHR ''Z''), (CHR ''0'', CHR ''9''),
                          (CHR ''.'', CHR ''.''), (CHR ''_'', CHR ''_''), (CHR ''-'', CHR ''-'')]))
           (Seq (lit ''@'')
           (Seq (Plus (Class [(CHR ''a'', CHR ''z''), (CHR ''A'', CHR ''Z''), (CHR ''0'', CHR ''9''),
                          (CHR ''.'', CHR ''.''), (CHR ''_'', CHR ''_''), (CHR ''-'', CHR ''-'')]))
           (Seq (lit ''.'')
                (Plus (Class [(CHR ''a'', CHR ''z''), (CHR ''A'', CHR ''Z''), (CHR ''0'', CHR ''9''),
                          (CHR ''_'', CHR ''_''), (CHR ''-'', CHR ''-'')]))))))"

definition extractEmail :: "string \<Rightarrow> string option" where
  "extractEmail transcript =
     (case rx_match False emailPattern transcript of None \<Rightarrow> None | Some (_, m1) \<Rightarrow> m1)"

section \<open>Rate limiter (src/src/middleware/rate-limit.middleware.ts)\<close>

text \<open>The store maps a client key to its counter and the end of its window. Clock values
  are milliseconds, as \<^verbatim>\<open>Date.now()\<close> returns them.\<close>

record rl_entry =
  count :: int
  resetTime :: int

type_synonym RateLimitStore = "string \<rightharpoonup> rl_entry"

record RateLimitOptions =
  windowMs :: int
  maxRequests :: int
  message :: "string option"

record rl_request =
  x_forwarded_for :: "string option"
  x_real_ip :: "string option"
  remoteAddress :: "string option"

text \<open>The first of: the text before the first comma of \<^verbatim>\<open>x-forwarded-for\<close>, the header
  \<^verbatim>\<open>x-real-ip\<close>, the socket's address, each skipped when absent or empty.\<close>

definition clientIp :: "rl_request \<Rightarrow> string" where
  "clientIp req =
     (case map_option (takeWhile (\<lambda>c. c \<noteq> CHR '','')) (x_forwarded_for req) of
        Some (c # cs) \<Rightarrow> c # cs
      | _ \<Rightarrow>
       (case x_real_ip req of
          Some (c # cs) \<Rightarrow> c # cs
        | _ \<Rightarrow>
         (case remoteAddress req of
            Some (c # cs) \<Rightarrow> c # cs
          | _ \<Rightarrow> ''unknown'')))"

datatype rl_message = CustomMessage string | TryAgainIn int

datatype rl_outcome =
    TooManyRequests (retryAfter: int) (body_message: rl_message)
  | Next (limit_header: int) (remaining_header: int) (reset_header: int)

text \<open>\<^verbatim>\<open>options.message || `Rate limit exceeded. Please try again in ${resetIn} seconds.`\<close>\<close>

definition limit_message :: "RateLimitOptions \<Rightarrow> int \<Rightarrow> rl_message" where
  "limit_message options resetIn =
     (case message options of Some (c # cs) \<Rightarrow> CustomMessage (c # cs) | _ \<Rightarrow> TryAgainIn resetIn)"

definition rateLimiter ::
  "RateLimitOptions \<Rightarrow> rl_request \<Rightarrow> int \<Rightarrow> RateLimitStore \<Rightarrow> rl_outcome \<times> RateLimitStore" where
  "rateLimiter options req now rateLimitStore =
     (let key = ''rate_limit:'' @ clientIp req;
          fresh = \<lparr>count = 0, resetTime = now + windowMs options\<rparr>;
          entry0 = (case rateLimitStore key of
                      None \<Rightarrow> fresh
                    | Some e \<Rightarrow> if resetTime e < now then fresh else e);
          entry1 = entry0\<lparr>count := count entry0 + 1\<rparr>;
          store' = rateLimitStore(key \<mapsto> entry1)
      in if count entry1 > maxRequests options
         then
           (let resetIn = \<lceil>real_of_int (resetTime entry1 - now) / 1000\<rceil>
            in (TooManyRequests resetIn (limit_message options resetIn), store'))
         else (Next (maxRequests options) (max 0 (maxRequests options - count entry1))
                 (resetTime entry1),
               store'))"

text \<open>The periodic clean-up removes the entries whose window has ended; the next request
  of such a key would have reset it anyway (\<open>sweep_transparent\<close> below).\<close>

definition sweep :: "int \<Rightarrow> RateLimitStore \<Rightarrow> RateLimitStore" where
  "sweep now rateLimitStore =
     (\<lambda>key. case rateLimitStore key of
              None \<Rightarrow> None
            | Some e \<Rightarrow> if resetTime e < now then None else Some e)"

text \<open>A sequence of requests, each with the clock value at its arrival, served in order
  on the shared store.\<close>

fun serve :: "RateLimitOptions \<Rightarrow> (rl_request \<times> int) list \<Rightarrow> RateLimitStore
    \<Rightarrow> rl_outcome list \<times> RateLimitStore" where
  "serve options [] store = ([], store)"
| "serve options ((req, now) # rest) store =
     (let (out, store1) = rateLimiter options req now store;
          (outs, store2) = serve options rest store1
      in (out # outs, store2))"

text \<open>The key has no entry, or its window ended before \<open>now\<close>.\<close>

definition window_open :: "RateLimitStore \<Rightarrow> string \<Rightarrow> int \<Rightarrow> bool" where
  "window_open store key now =
     (case store key of None \<Rightarrow> True | Some e \<Rightarrow> resetTime e < now)"

section \<open>Webhook events and the tables they touch (src/src/types/vapi.types.ts, src/unnamed/part_003)\<close>

text \<open>Of a call payload, the properties the handlers read: \<^verbatim>\<open>id\<close>,
  \<^verbatim>\<open>metadata?.userId\<close>, \<^verbatim>\<open>transcript\<close>, \<^verbatim>\<open>cost\<close>, \<^verbatim>\<open>recordingUrl\<close> and
  \<^verbatim>\<open>customer?.number\<close>.\<close>

record VapiCallResponse =
  call_id :: string
  metadata_userId :: "string option"
  call_transcript :: "string option"
  cost :: "real option"
  recordingUrl :: "string option"
  customer_number :: "string option"

record VapiWebhookEvent =
  ev_type :: string
  call :: "VapiCallResponse option"
  message_transcript :: "string option"
  timestamp :: string

record Call =
  user_id :: string
  transcript :: "string option"
  status :: "string option"
  duration :: "int option"
  audio_url :: "string option"

text \<open>The partial row passed to \<^verbatim>\<open>updateCall\<close>. A property whose value is
  \<^verbatim>\<open>undefined\<close> is dropped when the update is serialised, so \<^term>\<open>None\<close> leaves the
  column as it is.\<close>

record CallUpdate =
  upd_transcript :: "string option"
  upd_status :: "string option"
  upd_duration :: "int option"
  upd_audio_url :: "string option"

record WebhookEvent =
  we_id :: nat
  event_type :: string
  payload :: VapiWebhookEvent
  processed :: bool
  error_message :: "string option"

record Lead =
  lead_id :: nat
  lead_user_id :: string
  lead_call_id :: "string option"
  lead_name :: "string option"
  lead_email :: "string option"
  lead_phone :: "string option"
  lead_intent :: "string option"
  is_qualified :: bool
  confidence_score :: real
  flutterwave_payment_link :: "string option"
  payment_status :: "string option"
  telegram_notified_at :: "string option"

text \<open>The calls made to Telegram and Flutterwave, each with its result.\<close>

datatype effect =
    NotifyNewLead Lead string bool
  | NotifyPaymentLink Lead string bool
  | NotifyError string string bool
  | GeneratePaymentLink int string string "string option" "string option"

record world =
  webhook_events :: "WebhookEvent list"
  calls :: "string \<rightharpoonup> Call"
  leads :: "Lead list"
  outbox :: "effect list"

text \<open>What the outside answers during one delivery: whether each database statement
  goes through, whether the Telegram bot is configured and whether each of its sends
  goes through, whether Flutterwave is configured and the link its API returns, and the
  clock.\<close>

record env =
  db_saveWebhookEvent_ok :: bool
  db_markWebhookProcessed_ok :: bool
  db_updateCall_ok :: bool
  db_saveLead_ok :: bool
  db_markLeadNotified_ok :: bool
  db_updateLeadPayment_ok :: bool
  telegram_enabled :: bool
  telegram_newLead_ok :: bool
  telegram_paymentLink_ok :: bool
  telegram_error_ok :: bool
  flutterwave_enabled :: bool
  flutterwave_link :: "string option"
  clock :: string

text \<open>A row identifier the table does not hold yet (the database generates it).\<close>

definition fresh_id :: "nat list \<Rightarrow> nat" where
  "fresh_id ids = Suc (foldr max ids 0)"

text \<open>Every method of the database service catches what its statement throws: a failed
  insert returns \<^verbatim>\<open>null\<close>, a failed update changes nothing. An insert returns the row
  with the identifier the table gave it; an update reaches the rows with the given
  identifier.\<close>

definition saveWebhookEvent ::
  "env \<Rightarrow> string \<Rightarrow> VapiWebhookEvent \<Rightarrow> world \<Rightarrow> WebhookEvent option \<times> world" where
  "saveWebhookEvent e ty ev w =
     (if db_saveWebhookEvent_ok e
      then
        (let row = \<lparr>we_id = fresh_id (map we_id (webhook_events w)), event_type = ty,
                     payload = ev, processed = False, error_message = None\<rparr>
         in (Some row, w\<lparr>webhook_events := webhook_events w @ [row]\<rparr>))
      else (None, w))"

text \<open>\<^verbatim>\<open>errorMessage || null\<close>\<close>

definition or_null :: "string option \<Rightarrow> string option" where
  "or_null v = (case v of Some (c # cs) \<Rightarrow> Some (c # cs) | _ \<Rightarrow> None)"

definition markWebhookProcessed :: "env \<Rightarrow> nat \<Rightarrow> string option \<Rightarrow> world \<Rightarrow> world" where
  "markWebhookProcessed e eventId errorMessage w =
     (if db_markWebhookProcessed_ok e
      then w\<lparr>webhook_events :=
               map (\<lambda>r. if we_id r = eventId
                         then r\<lparr>processed := True, error_message := or_null errorMessage\<rparr>
                         else r)
                 (webhook_events w)\<rparr>
      else w)"

definition apply_update :: "CallUpdate \<Rightarrow> Call \<Rightarrow> Call" where
  "apply_update u row =
     row\<lparr>transcript := (case upd_transcript u of None \<Rightarrow> transcript row | Some t \<Rightarrow> Some t),
         status := (case upd_status u of None \<Rightarrow> status row | Some s \<Rightarrow> Some s),
         duration := (case upd_duration u of None \<Rightarrow> duration row | Some d \<Rightarrow> Some d),
         audio_url := (case upd_audio_url u of None \<Rightarrow> audio_url row | Some a \<Rightarrow> Some a)\<rparr>"

definition updateCall :: "env \<Rightarrow> string \<Rightarrow> CallUpdate \<Rightarrow> world \<Rightarrow> world" where
  "updateCall e callId updates w =
     (if db_updateCall_ok e
      then (case calls w callId of
              None \<Rightarrow> w
            | Some row \<Rightarrow> w\<lparr>calls := (calls w)(callId \<mapsto> apply_update updates row)\<rparr>)
      else w)"

definition saveLead :: "env \<Rightarrow> Lead \<Rightarrow> world \<Rightarrow> Lead option \<times> world" where
  "saveLead e lead w =
     (if db_saveLead_ok e
      then
        (let row = lead\<lparr>lead_id := fresh_id (map lead_id (leads w))\<rparr>
         in (Some row, w\<lparr>leads := leads w @ [row]\<rparr>))
      else (None, w))"

definition markLeadNotified :: "env \<Rightarrow> nat \<Rightarrow> world \<Rightarrow> world" where
  "markLeadNotified e leadId w =
     (if db_markLeadNotified_ok e
      then w\<lparr>leads :=
               map (\<lambda>l. if lead_id l = leadId then l\<lparr>telegram_notified_at := Some (clock e)\<rparr> else l)
                 (leads w)\<rparr>
      else w)"

definition updateLeadPayment :: "env \<Rightarrow> nat \<Rightarrow> string \<Rightarrow> string \<Rightarrow> world \<Rightarrow> world" where
  "updateLeadPayment e leadId paymentLink st w =
     (if db_updateLeadPayment_ok e
      then w\<lparr>leads :=
               map (\<lambda>l. if lead_id l = leadId
                         then l\<lparr>flutterwave_payment_link := Some paymentLink,
                                payment_status := Some st\<rparr>
                         else l)
                 (leads w)\<rparr>
      else w)"

section \<open>Telegram and Flutterwave services (src/src/services/telegram.service.ts, src/unnamed/part_004)\<close>

text \<open>Each notification returns whether it was sent: not when the bot is not configured,
  not when the send throws (the method catches it).\<close>

definition notifyNewLead :: "env \<Rightarrow> Lead \<Rightarrow> string \<Rightarrow> world \<Rightarrow> bool \<times> world" where
  "notifyNewLead e lead callTranscript w =
     (let sent = (telegram_enabled e \<and> telegram_newLead_ok e)
      in (sent, w\<lparr>outbox := outbox w @ [NotifyNewLead lead callTranscript sent]\<rparr>))"

definition notifyPaymentLink :: "env \<Rightarrow> Lead \<Rightarrow> string \<Rightarrow> world \<Rightarrow> bool \<times> world" where
  "notifyPaymentLink e lead paymentLink w =
     (let sent = (telegram_enabled e \<and> telegram_paymentLink_ok e)
      in (sent, w\<lparr>outbox := outbox w @ [NotifyPaymentLink lead paymentLink sent]\<rparr>))"

definition notifyError :: "env \<Rightarrow> string \<Rightarrow> string \<Rightarrow> world \<Rightarrow> world" where
  "notifyError e context_text error_text w =
     (let sent = (telegram_enabled e \<and> telegram_error_ok e)
      in w\<lparr>outbox := outbox w @ [NotifyError context_text error_text sent]\<rparr>)"

text \<open>\<^verbatim>\<open>generatePaymentLink\<close>: no link when the service is not configured, when the
  request throws, or when the response carries no link.\<close>

definition generatePaymentLink ::
  "env \<Rightarrow> int \<Rightarrow> string \<Rightarrow> string \<Rightarrow> string option \<Rightarrow> world \<Rightarrow> string option \<times> world" where
  "generatePaymentLink e amount customerName customerEmail customerPhone w =
     (let link = (if flutterwave_enabled e then or_null (flutterwave_link e) else None)
      in (link,
          w\<lparr>outbox := outbox w @
                [GeneratePaymentLink amount customerName customerEmail customerPhone link]\<rparr>))"

datatype plan = starter | professional | enterprise

fun plan_amount :: "plan \<Rightarrow> int" where
  "plan_amount starter = 29"
| "plan_amount professional = 79"
| "plan_amount enterprise = 199"

definition generateLeadPaymentLink ::
  "env \<Rightarrow> string \<Rightarrow> string \<Rightarrow> string option \<Rightarrow> plan \<Rightarrow> world \<Rightarrow> string option \<times> world" where
  "generateLeadPaymentLink e leadName leadEmail leadPhone p w =
     generatePaymentLink e (plan_amount p) leadName leadEmail leadPhone w"

section \<open>Webhook route and its handlers (src/src/routes/logs.routes.ts, webhook routes)\<close>

text \<open>\<^verbatim>\<open>Math.round\<close>: the nearest integer, a half rounding up.\<close>

definition js_round :: "real \<Rightarrow> int" where
  "js_round x = \<lfloor>x + 1 / 2\<rfloor>"

text \<open>The body of \<^verbatim>\<open>extractAndSaveLead\<close> runs inside one \<^verbatim>\<open>try\<close>; the services it
  calls catch their own failures, so the function returns the world it leaves behind.\<close>

definition extractAndSaveLead ::
  "env \<Rightarrow> string \<Rightarrow> string \<Rightarrow> string \<Rightarrow> string option \<Rightarrow> world \<Rightarrow> world" where
  "extractAndSaveLead e userId callId callTranscript phoneNumber w =
     (let intent_text = extractIntent callTranscript;
          isQualified = checkQualification callTranscript;
          confidence = calculateConfidence callTranscript;
          found_name = extractName callTranscript;
          found_email = extractEmail callTranscript;
          (saved, w1) =
            saveLead e
              \<lparr>lead_id = 0, lead_user_id = userId, lead_call_id = Some callId,
               lead_name = found_name, lead_email = found_email, lead_phone = phoneNumber,
               lead_intent = Some intent_text, is_qualified = isQualified,
               confidence_score = confidence, flutterwave_payment_link = None,
               payment_status = None, telegram_notified_at = None\<rparr> w
      in case saved of
           None \<Rightarrow> w1
         | Some lead \<Rightarrow>
             (let (sent, w2) = notifyNewLead e lead callTranscript w1;
                  w3 = markLeadNotified e (lead_id lead) w2
              in case (isQualified, found_name, found_email) of
                   (True, Some (n # ns), Some (m # ms)) \<Rightarrow>
                     (let (paymentLink, w4) =
                            generateLeadPaymentLink e (n # ns) (m # ms) phoneNumber starter w3
                      in case paymentLink of
                           Some (c # cs) \<Rightarrow>
                             (let w5 = updateLeadPayment e (lead_id lead) (c # cs) ''pending'' w4;
                                  (sent2, w6) = notifyPaymentLink e lead (c # cs) w5
                              in w6)
                         | _ \<Rightarrow> w4)
                 | _ \<Rightarrow> w3))"

definition handleCallStarted :: "env \<Rightarrow> VapiWebhookEvent \<Rightarrow> world \<Rightarrow> world" where
  "handleCallStarted e event w =
     (case call event of
        None \<Rightarrow> w
      | Some c \<Rightarrow>
         (case metadata_userId c of
            Some (u # us) \<Rightarrow>
              updateCall e (call_id c)
                \<lparr>upd_transcript = None, upd_status = Some ''in_progress'', upd_duration = None,
                 upd_audio_url = None\<rparr> w
          | _ \<Rightarrow> w))"

definition handleCallEnded :: "env \<Rightarrow> VapiWebhookEvent \<Rightarrow> world \<Rightarrow> world" where
  "handleCallEnded e event w =
     (case call event of
        None \<Rightarrow> w
      | Some c \<Rightarrow>
         (case metadata_userId c of
            Some (u # us) \<Rightarrow>
              (let w1 = updateCall e (call_id c)
                          \<lparr>upd_transcript = call_transcript c,
                           upd_status = Some ''answered'',
                           upd_duration =
                             (case cost c of
                                None \<Rightarrow> None
                              | Some k \<Rightarrow> if k = 0 then None else Some (js_round ((k / 0.01) * 60))),
                           upd_audio_url = recordingUrl c\<rparr> w
               in case call_transcript c of
                    Some (t # ts) \<Rightarrow>
                      extractAndSaveLead e (u # us) (call_id c) (t # ts) (customer_number c) w1
                  | _ \<Rightarrow> w1)
          | _ \<Rightarrow> w))"

text \<open>The error text of the admin alert is \<^verbatim>\<open>`Call to ${call.customer?.number} failed`\<close>;
  the model keeps the call id and the customer's number.\<close>

definition handleCallFailed :: "env \<Rightarrow> VapiWebhookEvent \<Rightarrow> world \<Rightarrow> world" where
  "handleCallFailed e event w =
     (case call event of
        None \<Rightarrow> w
      | Some c \<Rightarrow>
         (case metadata_userId c of
            Some (u # us) \<Rightarrow>
              (let w1 = updateCall e (call_id c)
                          \<lparr>upd_transcript = None, upd_status = Some ''missed'', upd_duration = None,
                           upd_audio_url = None\<rparr> w
               in notifyError e (call_id c)
                    (case customer_number c of None \<Rightarrow> ''undefined'' | Some n \<Rightarrow> n) w1)
          | _ \<Rightarrow> w))"

definition handleTranscript :: "env \<Rightarrow> VapiWebhookEvent \<Rightarrow> world \<Rightarrow> world" where
  "handleTranscript e event w = w"

text \<open>The \<^verbatim>\<open>switch\<close> of the route. The result is the message of the error thrown
  while processing, if any, and the world: none of the handlers throws.\<close>

definition process_event :: "VapiWebhookEvent \<Rightarrow> env \<Rightarrow> world \<Rightarrow> string option \<times> world" where
  "process_event event e w =
     (if ev_type event = ''call.ended'' then (None, handleCallEnded e event w)
      else if ev_type event = ''call.started'' then (None, handleCallStarted e event w)
      else if ev_type event = ''call.failed'' then (None, handleCallFailed e event w)
      else if ev_type event = ''transcript'' then (None, handleTranscript e event w)
      else (None, w))"

text \<open>The answer of the route: the acknowledgement
  \<^verbatim>\<open>{success: true, received: true, error?}\<close> or the failure
  \<^verbatim>\<open>{error: 'Webhook Processing Failed', message}\<close>.\<close>

datatype response_body = Ack "string option" | ProcessingFailed string

record http_response =
  status_code :: int
  json :: response_body

text \<open>The route, over the processing step \<open>proc\<close> in place of the \<^verbatim>\<open>switch\<close>, so
  that a step that throws can be put in; \<open>webhook_vapi\<close> is the route of the source.
  When \<^verbatim>\<open>req.body\<close> is undefined, the read of \<^verbatim>\<open>event.type\<close> throws, which the outer
  \<^verbatim>\<open>catch\<close> answers with status 500; nothing else in the outer \<^verbatim>\<open>try\<close> can throw.\<close>

definition webhook_vapi_with ::
  "(VapiWebhookEvent \<Rightarrow> env \<Rightarrow> world \<Rightarrow> string option \<times> world)
     \<Rightarrow> env \<Rightarrow> VapiWebhookEvent option \<Rightarrow> world \<Rightarrow> http_response \<times> world" where
  "webhook_vapi_with proc e body w =
     (case body of
        None \<Rightarrow>
          (\<lparr>status_code = 500,
            json = ProcessingFailed ''Cannot read properties of undefined (reading 'type')''\<rparr>, w)
      | Some event \<Rightarrow>
          (let (savedEvent, w1) = saveWebhookEvent e (ev_type event) event w;
               (thrown, w2) = proc event e w1
           in case thrown of
                None \<Rightarrow>
                  (let w3 = (case savedEvent of
                               None \<Rightarrow> w2
                             | Some row \<Rightarrow> markWebhookProcessed e (we_id row) None w2)
                   in (\<lparr>status_code = 200, json = Ack None\<rparr>, w3))
              | Some msg \<Rightarrow>
                  (let w3 = (case savedEvent of
                               None \<Rightarrow> w2
                             | Some row \<Rightarrow> markWebhookProcessed e (we_id row) (Some msg) w2)
                   in (\<lparr>status_code = 200, json = Ack (Some msg)\<rparr>, w3))))"

definition webhook_vapi :: "env \<Rightarrow> VapiWebhookEvent option \<Rightarrow> world \<Rightarrow> http_response \<times> world" where
  "webhook_vapi = webhook_vapi_with process_event"

section \<open>Notions used to state the properties of the webhook\<close>

text \<open>A string property that is present and not empty (truthy in JavaScript).\<close>

definition present :: "string option \<Rightarrow> bool" where
  "present v = (case v of Some (c # cs) \<Rightarrow> True | _ \<Rightarrow> False)"

definition has_user_id :: "VapiWebhookEvent \<Rightarrow> bool" where
  "has_user_id event =
     (case call event of None \<Rightarrow> False | Some c \<Rightarrow> present (metadata_userId c))"

text \<open>The row that \<^verbatim>\<open>extractAndSaveLead\<close> inserts for a transcript.\<close>

definition lead_of :: "string \<Rightarrow> string \<Rightarrow> string \<Rightarrow> string option \<Rightarrow> world \<Rightarrow> Lead" where
  "lead_of userId callId t phoneNumber w =
     \<lparr>lead_id = fresh_id (map lead_id (leads w)), lead_user_id = userId,
      lead_call_id = Some callId, lead_name = extractName t, lead_email = extractEmail t,
      lead_phone = phoneNumber, lead_intent = Some (extractIntent t),
      is_qualified = checkQualification t, confidence_score = calculateConfidence t,
      flutterwave_payment_link = None, payment_status = None, telegram_notified_at = None\<rparr>"

text \<open>The columns of a lead that the insert fixes; notification and payment updates write
  other columns.\<close>

definition lead_core ::
  "Lead \<Rightarrow> nat \<times> string \<times> string option \<times> string option \<times> string option \<times> string option
     \<times> string option \<times> bool \<times> real" where
  "lead_core l =
     (lead_id l, lead_user_id l, lead_call_id l, lead_name l, lead_email l, lead_phone l,
      lead_intent l, is_qualified l, confidence_score l)"

fun is_lead_notification :: "effect \<Rightarrow> bool" where
  "is_lead_notification (NotifyNewLead l t sent) = True"
| "is_lead_notification _ = False"

fun is_payment_link_request :: "effect \<Rightarrow> bool" where
  "is_payment_link_request (GeneratePaymentLink a n m p link) = True"
| "is_payment_link_request _ = False"

text \<open>The calls to Telegram and Flutterwave made between two worlds.\<close>

definition new_effects :: "world \<Rightarrow> world \<Rightarrow> effect list" where
  "new_effects w w' = drop (length (outbox w)) (outbox w')"

text \<open>The row of the event table for a delivered event once it is marked.\<close>

definition processed_row :: "world \<Rightarrow> VapiWebhookEvent \<Rightarrow> string option \<Rightarrow> WebhookEvent" where
  "processed_row w event err =
     \<lparr>we_id = fresh_id (map we_id (webhook_events w)), event_type = ev_type event,
      payload = event, processed = True, error_message = or_null err\<rparr>"

section \<open>A sample delivery\<close>

definition env_all_ok :: env where
  "env_all_ok =
     \<lparr>db_saveWebhookEvent_ok = True, db_markWebhookProcessed_ok = True, db_updateCall_ok = True,
      db_saveLead_ok = True, db_markLeadNotified_ok = True, db_updateLeadPayment_ok = True,
      telegram_enabled = True, telegram_newLead_ok = True, telegram_paymentLink_ok = True,
      telegram_error_ok = True, flutterwave_enabled = True,
      flutterwave_link = Some ''https://pay.example/l/1'', clock = ''2025-01-01T00:00:00.000Z''\<rparr>"

text \<open>The same, with Telegram refusing the lead notification and Flutterwave returning no
  link.\<close>

definition env_side_effects_fail :: env where
  "env_side_effects_fail =
     env_all_ok\<lparr>telegram_newLead_ok := False, flutterwave_link := None\<rparr>"

definition sample_transcript :: string where
  "sample_transcript = ''Yes, my name is Sarah Connor and I want to sign up, mail sarah@example.com''"

definition sample_call :: VapiCallResponse where
  "sample_call =
     \<lparr>call_id = ''call-1'', metadata_userId = Some ''user-1'',
      call_transcript = Some sample_transcript, cost = Some 0.05,
      recordingUrl = Some ''https://rec.example/1.mp3'', customer_number = Some ''+14155551234''\<rparr>"

definition sample_ended :: VapiWebhookEvent where
  "sample_ended =
     \<lparr>ev_type = ''call.ended'', call = Some sample_call, message_transcript = None,
      timestamp = ''2025-01-01T00:00:00.000Z''\<rparr>"

text \<open>A \<^verbatim>\<open>call.started\<close> event whose call carries no \<^verbatim>\<open>userId\<close>.\<close>

definition sample_anonymous :: VapiWebhookEvent where
  "sample_anonymous =
     \<lparr>ev_type = ''call.started'', call = Some (sample_call\<lparr>metadata_userId := None\<rparr>),
      message_transcript = None, timestamp = ''2025-01-01T00:00:00.000Z''\<rparr>"

definition sample_world :: world where
  "sample_world =
     \<lparr>webhook_events = [],
      calls = [''call-1'' \<mapsto>
                 \<lparr>user_id = ''user-1'', transcript = None, status = Some ''in_progress'',
                  duration = None, audio_url = None\<rparr>],
      leads = [], outbox = []\<rparr>"

section \<open>Chat endpoint (src/src/routes/assistant.routes.ts, chat routes)\<close>

record ChatMessage =
  role :: string
  content :: string
  msg_timestamp :: string

record ChatRequest =
  chat_message :: "string option"
  conversationId :: "string option"
  sessionId :: "string option"
  userMetadata_email :: "string option"

record Conversation =
  conversation_id :: string
  session_id :: string
  messages :: "ChatMessage list"
  last_message_at :: string
  message_count :: nat
  sentiment_score :: real
  conv_intent :: intent
  conv_urgency :: urgency
  conv_keywords :: "string list"

type_synonym conversation_store = "string \<rightharpoonup> Conversation"

text \<open>What the outside answers during one chat turn: the identifiers generated from the
  clock and the random source, the clock, the reply of \<^verbatim>\<open>getChatResponse\<close> and the analysis
  of \<^verbatim>\<open>analyzeSentiment\<close> (both catch their own failures and always return a value), and
  whether the upsert goes through.\<close>

record chat_env =
  generated_conversation_id :: string
  generated_session_id :: string
  chat_clock :: string
  getChatResponse :: "string \<Rightarrow> ChatMessage list \<Rightarrow> string"
  analyzeSentiment :: "string \<Rightarrow> SentimentAnalysis"
  db_upsert_ok :: bool

text \<open>Modelled from the spec: \<^verbatim>\<open>getChatConversation\<close> and \<^verbatim>\<open>upsertChatConversation\<close> of
  the database service are not among the sources. The specification gives the store as
  \<^verbatim>\<open>get(conversationId) -> Conversation | not found\<close> and
  \<^verbatim>\<open>upsert(conversation) -> success | failure\<close> with full replacement, a failure leaving
  the store as it was.\<close>

definition getChatConversation :: "conversation_store \<Rightarrow> string \<Rightarrow> Conversation option" where
  "getChatConversation store cid = store cid"

definition upsertChatConversation ::
  "chat_env \<Rightarrow> Conversation \<Rightarrow> conversation_store \<Rightarrow> bool \<times> conversation_store" where
  "upsertChatConversation e c store =
     (if db_upsert_ok e then (True, store(conversation_id c \<mapsto> c)) else (False, store))"

record ChatReply =
  reply_response :: string
  reply_conversationId :: string
  reply_sessionId :: string
  messageCount :: nat
  reply_sentiment :: "real \<times> intent \<times> urgency"
  qualificationScore :: real
  shouldCaptureLeadNow :: bool

datatype chat_result = MessageRequired | Reply ChatReply

text \<open>\<^verbatim>\<open>router.post('/')\<close>. A missing or empty message is answered with status 400;
  otherwise the turn is answered with status 200 and the reply.\<close>

definition chat_post ::
  "chat_env \<Rightarrow> ChatRequest \<Rightarrow> conversation_store \<Rightarrow> chat_result \<times> conversation_store" where
  "chat_post e req store =
     (case chat_message req of
        Some (c # cs) \<Rightarrow>
          (let msg = c # cs;
               convId = (case conversationId req of
                           Some (i # rest) \<Rightarrow> i # rest | _ \<Rightarrow> generated_conversation_id e);
               sessId = (case sessionId req of
                           Some (i # rest) \<Rightarrow> i # rest | _ \<Rightarrow> generated_session_id e);
               conversationHistory =
                 (case conversationId req of
                    Some (i # rest) \<Rightarrow>
                      (case getChatConversation store (i # rest) of
                         Some historyData \<Rightarrow> messages historyData
                       | None \<Rightarrow> [])
                  | _ \<Rightarrow> []);
               aiResponse = getChatResponse e msg conversationHistory;
               sentiment = analyzeSentiment e msg;
               newUserMessage =
                 \<lparr>role = ''user'', content = msg, msg_timestamp = chat_clock e\<rparr>;
               newAssistantMessage =
                 \<lparr>role = ''assistant'', content = aiResponse, msg_timestamp = chat_clock e\<rparr>;
               history' = conversationHistory @ [newUserMessage, newAssistantMessage];
               conversationData =
                 \<lparr>conversation_id = convId, session_id = sessId, messages = history',
                  last_message_at = chat_clock e, message_count = length history',
                  sentiment_score = score sentiment, conv_intent = intent sentiment,
                  conv_urgency = urgency sentiment, conv_keywords = sa_keywords sentiment\<rparr>;
               (saved, store') = upsertChatConversation e conversationData store;
               qualification = calculateQualificationScore [sentiment];
               capture = (qualification > 0.7 \<and> length history' \<ge> 6
                          \<and> \<not> present (userMetadata_email req))
           in (Reply
                 \<lparr>reply_response = aiResponse, reply_conversationId = convId,
                  reply_sessionId = sessId, messageCount = length history',
                  reply_sentiment = (score sentiment, intent sentiment, urgency sentiment),
                  qualificationScore = qualification, shouldCaptureLeadNow = capture\<rparr>,
               store'))
      | _ \<Rightarrow> (MessageRequired, store))"

text \<open>The qualification score of an answer, if it carries one.\<close>

fun reply_score :: "chat_result \<Rightarrow> real option" where
  "reply_score (Reply r) = Some (qualificationScore r)"
| "reply_score MessageRequired = None"

text \<open>The scorer run over a whole stored conversation would need one analysis per stored
  user message; \<open>stored_user_texts\<close> are the texts it would analyse.\<close>

definition stored_user_texts :: "conversation_store \<Rightarrow> string \<Rightarrow> string list" where
  "stored_user_texts store cid =
     (case store cid of
        None \<Rightarrow> []
      | Some c \<Rightarrow> map content (filter (\<lambda>m. role m = ''user'') (messages c)))"

definition neutral_analysis :: SentimentAnalysis where
  "neutral_analysis = \<lparr>score = 0.5, intent = General, urgency = Medium, sa_keywords = []\<rparr>"

definition eager_analysis :: SentimentAnalysis where
  "eager_analysis = \<lparr>score = 0.9, intent = Purchase, urgency = High, sa_keywords = [''buy'']\<rparr>"

text \<open>A chat environment whose analysis finds the text "I want to buy" eager and every
  other text neutral.\<close>

definition sample_chat_env :: chat_env where
  "sample_chat_env =
     \<lparr>generated_conversation_id = ''conv_1'', generated_session_id = ''sess_1'',
      chat_clock = ''2025-01-01T00:00:00.000Z'',
      getChatResponse = (\<lambda>m h. ''Happy to help.''),
      analyzeSentiment = (\<lambda>m. if m = ''I want to buy'' then eager_analysis else neutral_analysis),
      db_upsert_ok = True\<rparr>"

definition sample_chat_store :: conversation_store where
  "sample_chat_store =
     [''conv_0'' \<mapsto>
        \<lparr>conversation_id = ''conv_0'', session_id = ''sess_0'',
         messages = [\<lparr>role = ''user'', content = ''hello'', msg_timestamp = ''t0''\<rparr>,
                     \<lparr>role = ''assistant'', content = ''Hi!'', msg_timestamp = ''t0''\<rparr>],
         last_message_at = ''t0'', message_count = 2, sentiment_score = 0.5,
         conv_intent = General, conv_urgency = Medium, conv_keywords = []\<rparr>]"

definition sample_chat_request :: ChatRequest where
  "sample_chat_request =
     \<lparr>chat_message = Some ''I want to buy'', conversationId = Some ''conv_0'',
      sessionId = Some ''sess_0'', userMetadata_email = None\<rparr>"

section \<open>Theorems\<close>

lemma foldl_add_sum_list:
  "foldl (\<lambda>sum s. sum + f s) a xs = a + sum_list (map f xs)" for a :: real
  by (induction xs arbitrary: a) simp_all

lemma intentScores_weight: "or_default (intentScores i) d = intent_weight i"
  by (cases i) (simp_all add: intentScores_def or_default_def)

lemma urgencyScores_weight: "or_default (urgencyScores u) d = urgency_weight u"
  by (cases u) (simp_all add: urgencyScores_def or_default_def)

lemma score_nonempty:
  "h \<noteq> [] \<Longrightarrow> calculateQualificationScore h = spec_score h"
  by (simp add: calculateQualificationScore_def spec_score_def mean_def clamp01_def Let_def
      foldl_add_sum_list intentScores_weight urgencyScores_weight min_def max_def)



















lemma first_name_match_none:
  "list_all (\<lambda>p. rx_match True p t = None) ps \<Longrightarrow> first_name_match ps t = None"
  by (induction ps) simp_all

lemma first_name_match_head:
  "rx_match True p t = Some (w, Some m) \<Longrightarrow> m \<noteq> [] \<Longrightarrow>
   first_name_match (p # ps) t = Some (trim m)"
  by simp

lemma extractName_john: "extractName ''Hi, my name is John Smith'' = Some ''John Smith''"
  by code_simp

lemma extractName_sarah: "extractName ''this is Sarah'' = Some ''Sarah''"
  by code_simp

lemma extractEmail_example:
  "extractEmail ''reach me at a.b@example.co.uk please'' = Some ''a.b@example.co.uk''"
  by code_simp

lemma no_pattern_hello: "list_all (\<lambda>p. rx_match True p ''hello there'' = None) namePatterns"
  by code_simp

lemma first_pattern_wins:
  "rx_match True (hd namePatterns) ''this is Bob, my name is Al'' =
     Some (''my name is Al'', Some ''Al'')"
  by code_simp

lemma trim_example: "trim ''Al'' = ''Al''"
  by code_simp

text \<open>
  \<^bold>\<open>C4.\<close> Name extraction returns "John Smith" on "Hi, my name is John Smith" and
  "Sarah" on "this is Sarah"; it returns no name for a transcript that none of the three
  patterns matches, and the capture of the first pattern whenever that pattern matches;
  e-mail extraction returns "a.b@example.co.uk" on "reach me at a.b@example.co.uk please".
\<close>

theorem C4_lead_extraction:
  "extractName ''Hi, my name is John Smith'' = Some ''John Smith''
   \<and> extractName ''this is Sarah'' = Some ''Sarah''
   \<and> (list_all (\<lambda>p. rx_match True p t = None) namePatterns \<longrightarrow> extractName t = None)
   \<and> (rx_match True (hd namePatterns) t = Some (m0, Some (c # cs)) \<longrightarrow>
        extractName t = Some (trim (c # cs)))
   \<and> extractEmail ''reach me at a.b@example.co.uk please'' = Some ''a.b@example.co.uk''"
  using extractName_john extractName_sarah extractEmail_example
    first_name_match_none [of t namePatterns]
    first_name_match_head [of "hd namePatterns" t m0 "c # cs" "tl namePatterns"]
  by (simp add: extractName_def namePatterns_def)

theorem C4_lead_extraction_witness:
  "list_all (\<lambda>p. rx_match True p ''hello there'' = None) namePatterns
   \<and> extractName ''hello there'' = None
   \<and> rx_match True (hd namePatterns) ''this is Bob, my name is Al'' =
       Some (''my name is Al'', Some ''Al'')
   \<and> extractName ''this is Bob, my name is Al'' = Some ''Al''"
  using C4_lead_extraction [of "''hello there''"]
    C4_lead_extraction [of "''this is Bob, my name is Al''" "''my name is Al''" "CHR ''A''" "''l''"]
    no_pattern_hello first_pattern_wins trim_example
  by simp

lemma rateLimiter_fresh:
  "window_open store (''rate_limit:'' @ clientIp req) now \<Longrightarrow> 0 < maxRequests options \<Longrightarrow>
   rateLimiter options req now store =
     (Next (maxRequests options) (maxRequests options - 1) (now + windowMs options),
      store(''rate_limit:'' @ clientIp req \<mapsto> \<lparr>count = 1, resetTime = now + windowMs options\<rparr>))"
  by (auto simp: rateLimiter_def window_open_def Let_def split: option.splits)

lemma rateLimiter_within:
  "store (''rate_limit:'' @ clientIp req) = Some e \<Longrightarrow> now \<le> resetTime e \<Longrightarrow>
   count e < maxRequests options \<Longrightarrow>
   rateLimiter options req now store =
     (Next (maxRequests options) (maxRequests options - (count e + 1)) (resetTime e),
      store(''rate_limit:'' @ clientIp req \<mapsto> e\<lparr>count := count e + 1\<rparr>))"
  by (auto simp: rateLimiter_def Let_def)

lemma rateLimiter_exceeded:
  "store (''rate_limit:'' @ clientIp req) = Some e \<Longrightarrow> now \<le> resetTime e \<Longrightarrow>
   maxRequests options \<le> count e \<Longrightarrow>
   rateLimiter options req now store =
     (TooManyRequests \<lceil>real_of_int (resetTime e - now) / 1000\<rceil>
        (limit_message options \<lceil>real_of_int (resetTime e - now) / 1000\<rceil>),
      store(''rate_limit:'' @ clientIp req \<mapsto> e\<lparr>count := count e + 1\<rparr>))"
  by (auto simp: rateLimiter_def Let_def)

lemma sweep_transparent:
  "t \<le> now \<Longrightarrow>
   fst (rateLimiter options req now (sweep t store)) = fst (rateLimiter options req now store)"
  by (simp add: rateLimiter_def sweep_def Let_def split: option.splits)

lemma ceiling_window:
  "0 \<le> d \<Longrightarrow> d \<le> 1000 \<Longrightarrow> \<lceil>real_of_int d / 1000\<rceil> = (if d = 0 then 0 else 1)"
  by (auto simp: ceiling_eq_iff)

text \<open>
  \<^bold>\<open>C5.\<close> With a window of 1000 ms and at most 3 requests, four requests of one
  client key that arrive within one window (the key's window being open at the first) are
  answered: admitted three times, then rejected with status 429. The retry-after hint is
  the remaining window time in seconds rounded up: 1 while the window has time left, 0 at
  the very instant it ends. The rejected attempt is counted (the counter stands at 4). A
  fifth request after the window's end starts a new window with the counter at 1 and is
  admitted.
\<close>

theorem C5_rate_limit_window:
  assumes opts: "options = \<lparr>windowMs = 1000, maxRequests = 3, message = m\<rparr>"
    and keys: "clientIp r1 = ip" "clientIp r2 = ip" "clientIp r3 = ip" "clientIp r4 = ip"
      "clientIp r5 = ip"
    and fresh: "window_open store (''rate_limit:'' @ ip) t1"
    and times: "t1 \<le> t2" "t2 \<le> t3" "t3 \<le> t4" "t4 \<le> t1 + 1000" "t1 + 1000 < t5"
    and ra: "ra = (if t4 < t1 + 1000 then 1 else 0)"
  shows "serve options [(r1, t1), (r2, t2), (r3, t3), (r4, t4)] store =
           ([Next 3 2 (t1 + 1000), Next 3 1 (t1 + 1000), Next 3 0 (t1 + 1000),
             TooManyRequests ra (limit_message options ra)],
            store(''rate_limit:'' @ ip \<mapsto> \<lparr>count = 4, resetTime = t1 + 1000\<rparr>))
       \<and> ra = \<lceil>real_of_int (t1 + 1000 - t4) / 1000\<rceil>
       \<and> serve options [(r1, t1), (r2, t2), (r3, t3), (r4, t4), (r5, t5)] store =
           ([Next 3 2 (t1 + 1000), Next 3 1 (t1 + 1000), Next 3 0 (t1 + 1000),
             TooManyRequests ra (limit_message options ra), Next 3 2 (t5 + 1000)],
            store(''rate_limit:'' @ ip \<mapsto> \<lparr>count = 1, resetTime = t5 + 1000\<rparr>))"
proof -
  let ?k = "''rate_limit:'' @ ip"
  let ?s1 = "store(?k \<mapsto> \<lparr>count = 1, resetTime = t1 + 1000\<rparr>)"
  let ?s2 = "store(?k \<mapsto> \<lparr>count = 2, resetTime = t1 + 1000\<rparr>)"
  let ?s3 = "store(?k \<mapsto> \<lparr>count = 3, resetTime = t1 + 1000\<rparr>)"
  let ?s4 = "store(?k \<mapsto> \<lparr>count = 4, resetTime = t1 + 1000\<rparr>)"
  let ?s5 = "store(?k \<mapsto> \<lparr>count = 1, resetTime = t5 + 1000\<rparr>)"
  have c: "\<lceil>real_of_int (t1 + 1000 - t4) / 1000\<rceil> = ra"
    using times ra ceiling_window [of "t1 + 1000 - t4"] by (simp del: of_int_diff of_int_add)
  have 1: "rateLimiter options r1 t1 store = (Next 3 2 (t1 + 1000), ?s1)"
    using rateLimiter_fresh [of store r1 t1 options] fresh keys opts by simp
  have 2: "rateLimiter options r2 t2 ?s1 = (Next 3 1 (t1 + 1000), ?s2)"
    using rateLimiter_within [of ?s1 r2 _ t2 options] keys opts times by simp
  have 3: "rateLimiter options r3 t3 ?s2 = (Next 3 0 (t1 + 1000), ?s3)"
    using rateLimiter_within [of ?s2 r3 _ t3 options] keys opts times by simp
  have 4: "rateLimiter options r4 t4 ?s3 = (TooManyRequests ra (limit_message options ra), ?s4)"
    using rateLimiter_exceeded [of ?s3 r4 _ t4 options] keys opts times c by simp
  have 5: "rateLimiter options r5 t5 ?s4 = (Next 3 2 (t5 + 1000), ?s5)"
    using rateLimiter_fresh [of ?s4 r5 t5 options] keys opts times
    by (simp add: window_open_def)
  show ?thesis
    using 1 2 3 4 5 c by simp
qed

theorem C5_rate_limit_window_witness:
  "serve \<lparr>windowMs = 1000, maxRequests = 3, message = None\<rparr>
     [(\<lparr>x_forwarded_for = Some ''10.0.0.7, 172.16.0.1'', x_real_ip = None, remoteAddress = None\<rparr>, 5000),
      (\<lparr>x_forwarded_for = None, x_real_ip = Some ''10.0.0.7'', remoteAddress = None\<rparr>, 5200),
      (\<lparr>x_forwarded_for = None, x_real_ip = None, remoteAddress = Some ''10.0.0.7''\<rparr>, 5400),
      (\<lparr>x_forwarded_for = Some ''10.0.0.7'', x_real_ip = Some ''9.9.9.9'', remoteAddress = None\<rparr>, 5600),
      (\<lparr>x_forwarded_for = Some ''10.0.0.7'', x_real_ip = None, remoteAddress = None\<rparr>, 6001)]
     Map.empty =
   ([Next 3 2 6000, Next 3 1 6000, Next 3 0 6000, TooManyRequests 1 (TryAgainIn 1), Next 3 2 7001],
    [''rate_limit:10.0.0.7'' \<mapsto> \<lparr>count = 1, resetTime = 7001\<rparr>])"
  using C5_rate_limit_window
    [of "\<lparr>windowMs = 1000, maxRequests = 3, message = None\<rparr>" None
        "\<lparr>x_forwarded_for = Some ''10.0.0.7, 172.16.0.1'', x_real_ip = None, remoteAddress = None\<rparr>"
        "''10.0.0.7''"
        "\<lparr>x_forwarded_for = None, x_real_ip = Some ''10.0.0.7'', remoteAddress = None\<rparr>"
        "\<lparr>x_forwarded_for = None, x_real_ip = None, remoteAddress = Some ''10.0.0.7''\<rparr>"
        "\<lparr>x_forwarded_for = Some ''10.0.0.7'', x_real_ip = Some ''9.9.9.9'', remoteAddress = None\<rparr>"
        "\<lparr>x_forwarded_for = Some ''10.0.0.7'', x_real_ip = None, remoteAddress = None\<rparr>"
        Map.empty 5000 5200 5400 5600 6001 1]
  by (simp add: clientIp_def window_open_def limit_message_def)

subsection \<open>Frame lemmas of the services\<close>

lemma saveWebhookEvent_frame:
  "calls (snd (saveWebhookEvent e ty ev w)) = calls w
   \<and> leads (snd (saveWebhookEvent e ty ev w)) = leads w
   \<and> outbox (snd (saveWebhookEvent e ty ev w)) = outbox w"
  by (simp add: saveWebhookEvent_def Let_def)

lemma markWebhookProcessed_frame:
  "calls (markWebhookProcessed e i m w) = calls w
   \<and> leads (markWebhookProcessed e i m w) = leads w
   \<and> outbox (markWebhookProcessed e i m w) = outbox w"
  by (simp add: markWebhookProcessed_def)


lemma foldr_max_ge: "x \<in> set ids \<Longrightarrow> x \<le> foldr max ids (0::nat)"
  by (induction ids) auto

lemma fresh_id_new: "x \<in> set ids \<Longrightarrow> x < fresh_id ids"
  using foldr_max_ge [of x ids] by (simp add: fresh_id_def)



lemma mark_untouched:
  "\<forall>r \<in> set rows. g r \<noteq> i \<Longrightarrow> map (\<lambda>r. if g r = i then f r else r) rows = rows"
  by (induction rows) simp_all

lemma map_core_update:
  "(\<And>l. lead_core (f l) = lead_core l) \<Longrightarrow>
   map lead_core (map (\<lambda>l. if lead_id l = i then f l else l) ls) = map lead_core ls"
  by (induction ls) simp_all

subsection \<open>The lead pipeline\<close>


lemma lead_pipeline_outbox:
  "db_saveLead_ok e \<Longrightarrow>
   outbox (extractAndSaveLead e uid cid t ph w) =
     outbox w @
     NotifyNewLead (lead_of uid cid t ph w) t (telegram_enabled e \<and> telegram_newLead_ok e) #
     (case (checkQualification t, extractName t, extractEmail t) of
        (True, Some (n # ns), Some (m # ms)) \<Rightarrow>
          GeneratePaymentLink 29 (n # ns) (m # ms) ph
            (if flutterwave_enabled e then or_null (flutterwave_link e) else None) #
          (case (if flutterwave_enabled e then or_null (flutterwave_link e) else None) of
             Some (c # cs) \<Rightarrow>
               [NotifyPaymentLink (lead_of uid cid t ph w) (c # cs)
                  (telegram_enabled e \<and> telegram_paymentLink_ok e)]
           | _ \<Rightarrow> [])
      | _ \<Rightarrow> [])"
  by (simp add: extractAndSaveLead_def saveLead_def notifyNewLead_def markLeadNotified_def
      generateLeadPaymentLink_def generatePaymentLink_def updateLeadPayment_def
      notifyPaymentLink_def lead_of_def Let_def
      split: option.splits list.splits bool.splits)

lemma lead_pipeline_leads:
  "db_saveLead_ok e \<Longrightarrow>
   map lead_core (leads (extractAndSaveLead e uid cid t ph w)) =
     map lead_core (leads w) @ [lead_core (lead_of uid cid t ph w)]"
  by (simp add: extractAndSaveLead_def saveLead_def notifyNewLead_def markLeadNotified_def
      generateLeadPaymentLink_def generatePaymentLink_def updateLeadPayment_def
      notifyPaymentLink_def lead_of_def Let_def map_core_update lead_core_def
      split: option.splits list.splits bool.splits)

subsection \<open>The handlers and the route\<close>

lemma process_event_no_throw: "fst (process_event event e w) = None"
  by (simp add: process_event_def)



lemma no_user_id_handlers:
  "\<not> has_user_id event \<Longrightarrow>
   handleCallStarted e event w = w \<and> handleCallEnded e event w = w
   \<and> handleCallFailed e event w = w"
proof (cases "call event")
  case None
  then show ?thesis
    by (simp add: handleCallStarted_def handleCallEnded_def handleCallFailed_def)
next
  case (Some c)
  assume "\<not> has_user_id event"
  with Some have "metadata_userId c = None \<or> metadata_userId c = Some []"
    by (simp add: has_user_id_def present_def split: option.splits list.splits)
  with Some show ?thesis
    by (auto simp: handleCallStarted_def handleCallEnded_def handleCallFailed_def)
qed

lemma no_user_id_process:
  "\<not> has_user_id event \<Longrightarrow> process_event event e w = (None, w)"
  by (simp add: process_event_def no_user_id_handlers handleTranscript_def)

lemma route_status:
  "status_code (fst (webhook_vapi_with proc e (Some event) w)) = 200"
  by (simp add: webhook_vapi_with_def Let_def split: prod.splits option.splits)

lemma route_ack:
  "json (fst (webhook_vapi_with proc e (Some event) w)) =
     Ack (fst (proc event e (snd (saveWebhookEvent e (ev_type event) event w))))"
  by (simp add: webhook_vapi_with_def Let_def split: prod.splits option.splits)

lemma mark_new_row:
  assumes "db_markWebhookProcessed_ok e"
  shows "webhook_events
           (markWebhookProcessed e (fresh_id (map we_id rows)) err
              (w2\<lparr>webhook_events := rows @
                 [\<lparr>we_id = fresh_id (map we_id rows), event_type = ty, payload = ev,
                   processed = False, error_message = None\<rparr>]\<rparr>)) =
         rows @ [\<lparr>we_id = fresh_id (map we_id rows), event_type = ty, payload = ev,
                  processed = True, error_message = or_null err\<rparr>]"
proof -
  have "\<forall>r \<in> set rows. we_id r \<noteq> fresh_id (map we_id rows)"
    using fresh_id_new [of _ "map we_id rows"] by fastforce
  then have "map (\<lambda>r. if we_id r = fresh_id (map we_id rows)
                       then r\<lparr>processed := True, error_message := or_null err\<rparr> else r) rows = rows"
    by (rule mark_untouched)
  with assms show ?thesis
    by (simp add: markWebhookProcessed_def)
qed

lemma route_events:
  assumes "db_saveWebhookEvent_ok e" and "db_markWebhookProcessed_ok e"
    and "webhook_events (snd (proc event e (snd (saveWebhookEvent e (ev_type event) event w)))) =
         webhook_events (snd (saveWebhookEvent e (ev_type event) event w))"
  shows "webhook_events (snd (webhook_vapi_with proc e (Some event) w)) =
         webhook_events w @
           [processed_row w event
              (fst (proc event e (snd (saveWebhookEvent e (ev_type event) event w))))]"
proof -
  let ?row = "\<lparr>we_id = fresh_id (map we_id (webhook_events w)), event_type = ev_type event,
               payload = event, processed = False, error_message = None\<rparr>"
  let ?w1 = "w\<lparr>webhook_events := webhook_events w @ [?row]\<rparr>"
  obtain thrown w2 where p: "proc event e ?w1 = (thrown, w2)"
    by (cases "proc event e ?w1")
  have s: "saveWebhookEvent e (ev_type event) event w = (Some ?row, ?w1)"
    using assms(1) by (simp add: saveWebhookEvent_def Let_def)
  have w2: "w2 = w2\<lparr>webhook_events := webhook_events w @ [?row]\<rparr>"
    using assms(3) p s by simp
  have m: "webhook_events (markWebhookProcessed e (fresh_id (map we_id (webhook_events w))) err w2)
           = webhook_events w @ [processed_row w event err]" for err
    using mark_new_row [OF assms(2), where rows = "webhook_events w" and err = err and ?w2.0 = w2
        and ty = "ev_type event" and ev = event] w2
    by (simp add: processed_row_def)
  show ?thesis
    using s p m [of None] m [of "Some _"]
    by (cases thrown) (simp_all add: webhook_vapi_with_def or_null_def processed_row_def)
qed

lemma route_frame:
  "calls (snd (webhook_vapi_with proc e (Some event) w)) =
     calls (snd (proc event e (snd (saveWebhookEvent e (ev_type event) event w))))
   \<and> leads (snd (webhook_vapi_with proc e (Some event) w)) =
     leads (snd (proc event e (snd (saveWebhookEvent e (ev_type event) event w))))
   \<and> outbox (snd (webhook_vapi_with proc e (Some event) w)) =
     outbox (snd (proc event e (snd (saveWebhookEvent e (ev_type event) event w))))"
  by (simp add: webhook_vapi_with_def Let_def markWebhookProcessed_frame
      split: prod.splits option.splits)

text \<open>
  \<^bold>\<open>C6.\<close> Every event delivered to the webhook is answered with status 200, also when
  the processing step throws: the answer then is the acknowledgement (success, received)
  carrying the error's message, and, the event row having been stored and the update
  going through, that row ends processed with the message as its error (an empty message
  is stored as null). The processing step of the source never throws, so its answer is the
  plain acknowledgement.
\<close>

theorem C6_webhook_status_200:
  "status_code (fst (webhook_vapi_with proc e (Some event) w)) = 200
   \<and> (fst (proc event e (snd (saveWebhookEvent e (ev_type event) event w))) = Some msg \<longrightarrow>
        json (fst (webhook_vapi_with proc e (Some event) w)) = Ack (Some msg)
        \<and> (db_saveWebhookEvent_ok e \<and> db_markWebhookProcessed_ok e
            \<and> webhook_events (snd (proc event e (snd (saveWebhookEvent e (ev_type event) event w))))
                = webhook_events (snd (saveWebhookEvent e (ev_type event) event w)) \<longrightarrow>
            webhook_events (snd (webhook_vapi_with proc e (Some event) w)) =
              webhook_events w @ [processed_row w event (Some msg)]))
   \<and> fst (webhook_vapi e (Some event) w) = \<lparr>status_code = 200, json = Ack None\<rparr>"
proof -
  have "fst (webhook_vapi e (Some event) w) = \<lparr>status_code = 200, json = Ack None\<rparr>"
    using route_status [of process_event e event w] route_ack [of process_event e event w]
    by (simp add: webhook_vapi_def process_event_no_throw)
  then show ?thesis
    using route_status [of proc e event w] route_ack [of proc e event w]
      route_events [of e proc event w]
    by auto
qed

theorem C6_webhook_status_200_witness:
  "status_code
     (fst (webhook_vapi_with (\<lambda>ev e w. (Some ''boom'', w)) env_all_ok (Some sample_ended)
        sample_world)) = 200
   \<and> json
     (fst (webhook_vapi_with (\<lambda>ev e w. (Some ''boom'', w)) env_all_ok (Some sample_ended)
        sample_world)) = Ack (Some ''boom'')
   \<and> webhook_events
     (snd (webhook_vapi_with (\<lambda>ev e w. (Some ''boom'', w)) env_all_ok (Some sample_ended)
        sample_world)) =
     [\<lparr>we_id = 1, event_type = ''call.ended'', payload = sample_ended, processed = True,
       error_message = Some ''boom''\<rparr>]"
  using C6_webhook_status_200
    [of "\<lambda>ev e w. (Some ''boom'', w)" env_all_ok sample_ended sample_world "''boom''"]
  by (simp add: env_all_ok_def sample_world_def processed_row_def fresh_id_def or_null_def
      sample_ended_def)



lemma new_effects_append: "outbox w' = outbox w @ es \<Longrightarrow> new_effects w w' = es"
  by (simp add: new_effects_def)

lemma present_cases: "present v = (\<exists>c cs. v = Some (c # cs))"
  by (simp add: present_def split: option.splits list.splits)

lemma lead_pipeline_effects:
  assumes "db_saveLead_ok e"
  shows "list_ex is_lead_notification (new_effects w (extractAndSaveLead e uid cid t ph w))
   \<and> (list_ex is_payment_link_request (new_effects w (extractAndSaveLead e uid cid t ph w))
        \<longleftrightarrow> checkQualification t \<and> present (extractName t) \<and> present (extractEmail t))"
proof -
  note o = lead_pipeline_outbox [OF assms, where uid = uid and cid = cid and t = t and ph = ph
      and w = w]
  show ?thesis
    unfolding new_effects_append [OF o]
    by (auto simp: present_cases split: option.splits list.splits bool.splits)
qed

lemma sample_transcript_facts:
  "checkQualification sample_transcript
   \<and> extractName sample_transcript = Some ''Sarah Connor''
   \<and> extractEmail sample_transcript = Some ''sarah@example.com''"
  by code_simp

text \<open>
  \<^bold>\<open>C8.\<close> Once the lead is saved, the lead notification is attempted, whatever
  Telegram and Flutterwave answer; a payment link is requested exactly when the
  transcript qualifies and both a name and an e-mail address were extracted, whether or
  not the notification went out; the saved lead stays in the table with the columns the
  insert gave it, and the older leads keep theirs; the webhook answers 200 with the plain
  acknowledgement in every case.
\<close>

theorem C8_lead_side_effects:
  assumes "db_saveLead_ok e" and "w' = extractAndSaveLead e uid cid t ph w"
  shows "list_ex is_lead_notification (new_effects w w')
     \<and> (list_ex is_payment_link_request (new_effects w w')
          \<longleftrightarrow> checkQualification t \<and> present (extractName t) \<and> present (extractEmail t))
     \<and> (list_ex is_payment_link_request
           (new_effects w
              (extractAndSaveLead (e\<lparr>telegram_enabled := b1, telegram_newLead_ok := b2\<rparr>)
                 uid cid t ph w))
          \<longleftrightarrow> list_ex is_payment_link_request (new_effects w w'))
     \<and> list_ex is_lead_notification
           (new_effects w
              (extractAndSaveLead (e\<lparr>flutterwave_enabled := b3, flutterwave_link := l\<rparr>)
                 uid cid t ph w))
     \<and> map lead_core (leads w') = map lead_core (leads w) @ [lead_core (lead_of uid cid t ph w)]
     \<and> fst (webhook_vapi e (Some event) w0) = \<lparr>status_code = 200, json = Ack None\<rparr>"
proof -
  have r: "fst (webhook_vapi e (Some event) w0) = \<lparr>status_code = 200, json = Ack None\<rparr>"
    using route_status [of process_event e event w0] route_ack [of process_event e event w0]
    by (simp add: webhook_vapi_def process_event_no_throw)
  have t: "db_saveLead_ok (e\<lparr>telegram_enabled := b1, telegram_newLead_ok := b2\<rparr>)"
    and f: "db_saveLead_ok (e\<lparr>flutterwave_enabled := b3, flutterwave_link := l\<rparr>)"
    using assms(1) by simp_all
  show ?thesis
    using lead_pipeline_effects [OF assms(1), of w uid cid t ph]
      lead_pipeline_effects [OF t, of w uid cid t ph]
      lead_pipeline_effects [OF f, of w uid cid t ph]
      lead_pipeline_leads [OF assms(1), of uid cid t ph w] assms(2) r
    by simp
qed

theorem C8_lead_side_effects_witness:
  "list_ex is_lead_notification
     (new_effects sample_world
        (extractAndSaveLead env_side_effects_fail ''user-1'' ''call-1'' sample_transcript
           (Some ''+14155551234'') sample_world))
   \<and> list_ex is_payment_link_request
     (new_effects sample_world
        (extractAndSaveLead env_side_effects_fail ''user-1'' ''call-1'' sample_transcript
           (Some ''+14155551234'') sample_world))
   \<and> map lead_id
       (leads (extractAndSaveLead env_side_effects_fail ''user-1'' ''call-1'' sample_transcript
           (Some ''+14155551234'') sample_world)) = [1]
   \<and> fst (webhook_vapi env_side_effects_fail (Some sample_ended) sample_world) =
       \<lparr>status_code = 200, json = Ack None\<rparr>"
proof -
  have ok: "db_saveLead_ok env_side_effects_fail"
    by (simp add: env_side_effects_fail_def env_all_ok_def)
  have "map (fst \<circ> lead_core)
       (leads (extractAndSaveLead env_side_effects_fail ''user-1'' ''call-1'' sample_transcript
           (Some ''+14155551234'') sample_world)) = [1]"
    using C8_lead_side_effects
      [where e = env_side_effects_fail and uid = "''user-1''" and cid = "''call-1''"
         and t = sample_transcript and ph = "Some ''+14155551234''" and w = sample_world
         and ?b1.0 = True and ?b2.0 = True and ?b3.0 = True and l = None
         and event = sample_ended and ?w0.0 = sample_world, OF ok refl]
    by (simp add: lead_core_def lead_of_def sample_world_def fresh_id_def flip: map_map)
  moreover have "fst \<circ> lead_core = lead_id"
    by (rule ext) (simp add: lead_core_def)
  ultimately show ?thesis
    using C8_lead_side_effects
      [where e = env_side_effects_fail and uid = "''user-1''" and cid = "''call-1''"
         and t = sample_transcript and ph = "Some ''+14155551234''" and w = sample_world
         and ?b1.0 = True and ?b2.0 = True and ?b3.0 = True and l = None
         and event = sample_ended and ?w0.0 = sample_world, OF ok refl]
      sample_transcript_facts
    by (simp add: present_def)
qed

text \<open>
  \<^bold>\<open>C10.\<close> An event whose call payload carries no user id (no call, no
  \<^verbatim>\<open>userId\<close> in its metadata, or an empty one) passes each of the handlers of
  \<^verbatim>\<open>call.started\<close>, \<^verbatim>\<open>call.ended\<close> and \<^verbatim>\<open>call.failed\<close> without a change: no call
  record is updated, no lead is saved, nothing is sent to Telegram or Flutterwave. The
  route still answers 200 and, the database statements going through, stores the event
  and marks it processed.
\<close>

theorem C10_missing_user_id:
  assumes "\<not> has_user_id event"
  shows "handleCallStarted e event w = w \<and> handleCallEnded e event w = w
     \<and> handleCallFailed e event w = w
     \<and> process_event event e w = (None, w)
     \<and> fst (webhook_vapi e (Some event) w) = \<lparr>status_code = 200, json = Ack None\<rparr>
     \<and> calls (snd (webhook_vapi e (Some event) w)) = calls w
     \<and> leads (snd (webhook_vapi e (Some event) w)) = leads w
     \<and> outbox (snd (webhook_vapi e (Some event) w)) = outbox w
     \<and> (db_saveWebhookEvent_ok e \<and> db_markWebhookProcessed_ok e \<longrightarrow>
          webhook_events (snd (webhook_vapi e (Some event) w)) =
            webhook_events w @ [processed_row w event None])"
proof -
  have r: "fst (webhook_vapi e (Some event) w) = \<lparr>status_code = 200, json = Ack None\<rparr>"
    using route_status [of process_event e event w] route_ack [of process_event e event w]
    by (simp add: webhook_vapi_def process_event_no_throw)
  have p: "process_event event e v = (None, v)" for v
    using assms by (rule no_user_id_process)
  have ev: "db_saveWebhookEvent_ok e \<and> db_markWebhookProcessed_ok e \<longrightarrow>
          webhook_events (snd (webhook_vapi e (Some event) w)) =
            webhook_events w @ [processed_row w event None]"
    using route_events [of e process_event event w]
    by (simp add: webhook_vapi_def p)
  show ?thesis
    using no_user_id_handlers [OF assms, of e w] p [of w] r ev
      route_frame [of process_event e event w] saveWebhookEvent_frame [of e "ev_type event" event w]
    by (simp add: webhook_vapi_def p)
qed

theorem C10_missing_user_id_witness:
  "\<not> has_user_id sample_anonymous
   \<and> process_event sample_anonymous env_all_ok sample_world = (None, sample_world)
   \<and> calls (snd (webhook_vapi env_all_ok (Some sample_anonymous) sample_world)) = calls sample_world
   \<and> leads (snd (webhook_vapi env_all_ok (Some sample_anonymous) sample_world)) = []
   \<and> outbox (snd (webhook_vapi env_all_ok (Some sample_anonymous) sample_world)) = []
   \<and> webhook_events (snd (webhook_vapi env_all_ok (Some sample_anonymous) sample_world)) =
       [\<lparr>we_id = 1, event_type = ''call.started'', payload = sample_anonymous, processed = True,
         error_message = None\<rparr>]"
proof -
  have h: "\<not> has_user_id sample_anonymous"
    by (simp add: has_user_id_def sample_anonymous_def present_def)
  show ?thesis
    using h C10_missing_user_id [OF h, of env_all_ok sample_world]
    by (simp add: env_all_ok_def sample_world_def processed_row_def fresh_id_def or_null_def
        sample_anonymous_def)
qed

text \<open>
  \<^bold>\<open>C9.\<close> For every chat turn with a message, the qualification score of the answer is
  the scorer applied to the one-element history holding the analysis of the current
  message; the stored conversation has no part in it: whatever the store holds, the score
  is the same.
\<close>

theorem C9_chat_score_latest_turn:
  assumes "chat_message req = Some (c # cs)"
  shows "reply_score (fst (chat_post e req store)) =
           Some (calculateQualificationScore [analyzeSentiment e (c # cs)])
       \<and> reply_score (fst (chat_post e req store2)) = reply_score (fst (chat_post e req store))"
proof -
  have "reply_score (fst (chat_post e req s)) =
           Some (calculateQualificationScore [analyzeSentiment e (c # cs)])" for s
    using assms by (simp add: chat_post_def Let_def split: prod.splits)
  then show ?thesis
    by simp
qed

theorem C9_chat_score_latest_turn_witness:
  "reply_score (fst (chat_post sample_chat_env sample_chat_request sample_chat_store)) = Some 0.97
   \<and> reply_score (fst (chat_post sample_chat_env sample_chat_request Map.empty)) = Some 0.97
   \<and> calculateQualificationScore
       (map (analyzeSentiment sample_chat_env)
          (stored_user_texts sample_chat_store ''conv_0'' @ [''I want to buy''])) = 0.72"
proof -
  have full: "calculateQualificationScore
       (map (analyzeSentiment sample_chat_env)
          (stored_user_texts sample_chat_store ''conv_0'' @ [''I want to buy''])) = 0.72"
    by (simp add: stored_user_texts_def sample_chat_store_def sample_chat_env_def
        eager_analysis_def neutral_analysis_def score_nonempty spec_score_def mean_def clamp01_def)
  have one: "calculateQualificationScore [analyzeSentiment sample_chat_env ''I want to buy''] = 0.97"
    by (simp add: sample_chat_env_def eager_analysis_def score_nonempty spec_score_def mean_def
        clamp01_def)
  show ?thesis
    using C9_chat_score_latest_turn
      [where req = sample_chat_request and c = "CHR ''I''" and cs = "'' want to buy''"
         and e = sample_chat_env and store = sample_chat_store and ?store2.0 = Map.empty]
      one full
    by (simp add: sample_chat_request_def)
qed

end
